theory Spec2Isabelle
  imports Main "HOL-Library.AList"
begin

section \<open>Python values\<close>

text \<open>
  The schemas of \<^verbatim>\<open>walkoff/executiondb/schemas.py\<close> read and produce JSON-shaped
  documents: Python dictionaries with string keys whose values are \<^verbatim>\<open>None\<close>,
  booleans, numbers, strings, lists and dictionaries. A dictionary is an association
  list in insertion order (Python dictionaries keep it); its keys are distinct.
  Numbers are integers here: no function of the file computes with them.
\<close>

datatype pyval =
    PNone
  | PBool bool
  | PInt int
  | PStr string
  | PList "pyval list"
  | PDict "(string \<times> pyval) list"

type_synonym pydict = "(string \<times> pyval) list"

text \<open>
  Python's \<^verbatim>\<open>==\<close> on these values: \<^verbatim>\<open>True == 1\<close> and \<^verbatim>\<open>False == 0\<close>, lists are
  equal elementwise, dictionaries are equal when they have the same keys with equal
  values, whatever the order; values of different kinds are unequal.
\<close>

fun py_eq :: "pyval \<Rightarrow> pyval \<Rightarrow> bool"
  and py_eq_list :: "pyval list \<Rightarrow> pyval list \<Rightarrow> bool"
  and py_eq_items :: "(string \<times> pyval) list \<Rightarrow> (string \<times> pyval) list \<Rightarrow> bool" where
  "py_eq PNone PNone = True"
| "py_eq (PBool a) (PBool b) = (a = b)"
| "py_eq (PBool a) (PInt j) = ((if a then 1 else 0) = j)"
| "py_eq (PInt i) (PBool b) = (i = (if b then 1 else 0))"
| "py_eq (PInt i) (PInt j) = (i = j)"
| "py_eq (PStr s) (PStr t) = (s = t)"
| "py_eq (PList xs) (PList ys) = py_eq_list xs ys"
| "py_eq (PDict d) (PDict e) = (length d = length e \<and> py_eq_items d e)"
| "py_eq _ _ = False"
| "py_eq_list [] [] = True"
| "py_eq_list (x # xs) (y # ys) = (py_eq x y \<and> py_eq_list xs ys)"
| "py_eq_list _ _ = False"
| "py_eq_items [] e = True"
| "py_eq_items ((k, v) # d) e =
     ((case map_of e k of None \<Rightarrow> False | Some w \<Rightarrow> py_eq v w) \<and> py_eq_items d e)"

text \<open>Python's truth value of an object, \<^verbatim>\<open>bool(x)\<close>.\<close>

fun py_bool :: "pyval \<Rightarrow> bool" where
  "py_bool PNone = False"
| "py_bool (PBool b) = b"
| "py_bool (PInt i) = (i \<noteq> 0)"
| "py_bool (PStr s) = (s \<noteq> [])"
| "py_bool (PList xs) = (xs \<noteq> [])"
| "py_bool (PDict d) = (d \<noteq> [])"

text \<open>\<^verbatim>\<open>x in ys\<close> for a tuple \<^verbatim>\<open>ys\<close>: some element of \<^verbatim>\<open>ys\<close> equals \<^verbatim>\<open>x\<close>.\<close>

fun py_in :: "pyval \<Rightarrow> pyval list \<Rightarrow> bool" where
  "py_in x [] = False"
| "py_in x (y # ys) = (py_eq y x \<or> py_in x ys)"

section \<open>ExecutionBaseSchema: stripping empty fields on dump\<close>

text \<open>
  \<^verbatim>\<open>__skipvalues = (None, [], [{}])\<close>
\<close>

definition skipvalues :: "pyval list" where
  "skipvalues = [PNone, PList [], PList [PDict []]]"

text \<open>
  \<^verbatim>\<open>
  def remove_skip_values(self, data):
      return {
          key: value for key, value in data.items()
          if value not in self.__skipvalues
      }
  \<close>
\<close>

definition remove_skip_values :: "pydict \<Rightarrow> pydict" where
  "remove_skip_values data = filter (\<lambda>(key, v). \<not> py_in v skipvalues) data"

text \<open>
  The \<^verbatim>\<open>post_dump\<close> hook: every schema of the file inherits it, so the document a
  schema dumps is \<open>do_post_dump\<close> of the serialized fields.
\<close>

definition do_post_dump :: "pydict \<Rightarrow> pydict" where
  "do_post_dump data = remove_skip_values data"

section \<open>ArgumentSchema: a value or a reference\<close>

text \<open>
  \<^verbatim>\<open>ValidationError(message, field_names)\<close>: the exception a schema validator raises.
\<close>

datatype ValidationError = ValidationError (message: string) (field_names: "string list")

text \<open>
  \<^verbatim>\<open>
  @validates_schema
  def validate_argument(self, data):
      has_value = 'value' in data
      has_reference = 'reference' in data and bool(data['reference'])
      if (not has_value and not has_reference) or (has_value and has_reference):
          raise ValidationError('Arguments must have either a value or a reference.', ['value'])
  \<close>
\<close>

definition validate_argument :: "pydict \<Rightarrow> ValidationError + unit" where
  "validate_argument data =
     (let has_value = (map_of data ''value'' \<noteq> None);
          has_reference =
            (case map_of data ''reference'' of None \<Rightarrow> False | Some r \<Rightarrow> py_bool r)
      in if (\<not> has_value \<and> \<not> has_reference) \<or> (has_value \<and> has_reference)
         then Inl (ValidationError ''Arguments must have either a value or a reference.''
                     [''value''])
         else Inr ())"

text \<open>
  An error map is a dictionary from a field name (or an element's name) to the errors
  found there. The loader stores the error a schema validator raises in the error map
  of the load: the message is appended to the list of each field the error names.
\<close>

fun store_messages :: "string \<Rightarrow> string list \<Rightarrow> pydict \<Rightarrow> pydict" where
  "store_messages msg [] errs = errs"
| "store_messages msg (f # fs) errs =
     store_messages msg fs
       (AList.update f
          (PList ((case map_of errs f of Some (PList ms) \<Rightarrow> ms | _ \<Rightarrow> []) @ [PStr msg])) errs)"

definition store_error :: "ValidationError \<Rightarrow> pydict \<Rightarrow> pydict" where
  "store_error e errs = store_messages (message e) (field_names e) errs"

text \<open>The errors the schema-level validator of ArgumentSchema adds to a load.\<close>

definition argument_schema_errors :: "pydict \<Rightarrow> pydict" where
  "argument_schema_errors doc =
     (case validate_argument doc of Inl e \<Rightarrow> store_error e [] | Inr u \<Rightarrow> [])"

section \<open>ExecutionElementBaseSchema.load: validating the loaded elements\<close>

text \<open>
  \<^verbatim>\<open>InvalidExecutionElement\<close> (from \<^verbatim>\<open>walkoff.helpers\<close>): the exception an element's
  \<^verbatim>\<open>validate()\<close> raises; the loader reads its \<^verbatim>\<open>name\<close> and its \<^verbatim>\<open>errors\<close>.
\<close>

datatype InvalidExecutionElement = InvalidExecutionElement (name: string) (errors: pyval)

text \<open>
  What a schema load holds in \<^verbatim>\<open>.data\<close>: a constructed object, a list of them (a
  schema with \<^verbatim>\<open>many=True\<close>), or a raw value such as the dictionary of the decoded
  fields (no raw value is an execution element, a list of raw values included). The
  type \<open>'o\<close> of the constructed objects is a parameter: their classes are defined
  outside this file.
\<close>

datatype 'o pydata = Obj 'o | Raw pyval | Objs "'o pydata list"

text \<open>\<^verbatim>\<open>UnmarshalResult(data, errors)\<close>, the pair a load returns.\<close>

datatype 'o UnmarshalResult = UnmarshalResult (result_data: "'o pydata") (result_errors: pyval)

text \<open>
  The outcome of the inherited load, \<^verbatim>\<open>super(ExecutionElementBaseSchema, self).load(...)\<close>:
  it returns its data and its error dictionary, or \<^verbatim>\<open>InvalidExecutionElement\<close> escapes
  from it.
\<close>

datatype 'o super_load = Returns "'o pydata" pydict | Raises InvalidExecutionElement

text \<open>
  The classes of the elements: the nine the file imports and registers a schema for,
  and any other class, with its name and its base classes.
\<close>

datatype py_class =
    Playbook | Workflow | Action | Branch | ConditionalExpression | Condition | Transform
  | Position | Argument
  | OtherClass string "py_class list"

text \<open>The Python exceptions the functions of the file can let escape.\<close>

datatype py_exception = AttributeError | KeyError py_class

text \<open>
  \<^verbatim>\<open>d.update(e)\<close>: every item of \<^verbatim>\<open>e\<close> is stored in \<^verbatim>\<open>d\<close>, in order. Only a dictionary
  has the method.
\<close>

definition dict_update :: "pydict \<Rightarrow> pydict \<Rightarrow> pydict" where
  "dict_update d e = fold (\<lambda>(k, v). AList.update k v) e d"

definition py_update :: "pyval \<Rightarrow> pydict \<Rightarrow> py_exception + pyval" where
  "py_update d e = (case d of PDict kvs \<Rightarrow> Inr (PDict (dict_update kvs e)) | _ \<Rightarrow> Inl AttributeError)"

text \<open>
  \<^verbatim>\<open>
  all_objs = objs.data
  if not isinstance(objs.data, list):
      all_objs = [all_objs]
  \<close>
\<close>

fun all_objs :: "'o pydata \<Rightarrow> 'o pydata list" where
  "all_objs (Objs xs) = xs"
| "all_objs d = [d]"

text \<open>
  \<^verbatim>\<open>
  for obj in (obj for obj in all_objs if isinstance(obj, ExecutionElement)):
      try:
          obj.validate()
      except InvalidExecutionElement as e:
          errors[e.name] = e.errors
  \<close>
  The parameters are \<open>is_element\<close>, whether an object is an instance of
  \<^verbatim>\<open>ExecutionElement\<close>, and \<open>validate\<close>, the exception the object's \<^verbatim>\<open>validate()\<close>
  raises, if any.
\<close>

fun validate_objs ::
  "('o \<Rightarrow> bool) \<Rightarrow> ('o \<Rightarrow> InvalidExecutionElement option) \<Rightarrow> 'o pydata list \<Rightarrow> pydict \<Rightarrow> pydict" where
  "validate_objs is_element validate [] errs = errs"
| "validate_objs is_element validate (Obj obj # rest) errs =
     (if is_element obj then
        (case validate obj of
           None \<Rightarrow> validate_objs is_element validate rest errs
         | Some e \<Rightarrow> validate_objs is_element validate rest (AList.update (name e) (errors e) errs))
      else validate_objs is_element validate rest errs)"
| "validate_objs is_element validate (other # rest) errs =
     validate_objs is_element validate rest errs"

text \<open>
  \<^verbatim>\<open>
  def load(self, data, session=None, instance=None, *args, **kwargs):
      try:
          objs = super(ExecutionElementBaseSchema, self).load(data, ...)
      except InvalidExecutionElement as e:
          objs = UnmarshalResult({}, e.errors)
      if not objs.errors:
          errors = {}
          all_objs = ...
          for obj in ...
          if errors:
              objs.errors.update(errors)
      return objs
  \<close>
\<close>

definition load ::
  "('o \<Rightarrow> bool) \<Rightarrow> ('o \<Rightarrow> InvalidExecutionElement option) \<Rightarrow> 'o super_load
     \<Rightarrow> py_exception + 'o UnmarshalResult" where
  "load is_element validate super =
     (let objs = (case super of
                    Returns d errs \<Rightarrow> UnmarshalResult d (PDict errs)
                  | Raises e \<Rightarrow> UnmarshalResult (Raw (PDict [])) (errors e))
      in if \<not> py_bool (result_errors objs) then
           (let found = validate_objs is_element validate (all_objs (result_data objs)) []
            in if found \<noteq> [] then
                 (case py_update (result_errors objs) found of
                    Inl x \<Rightarrow> Inl x
                  | Inr merged \<Rightarrow> Inr (UnmarshalResult (result_data objs) merged))
               else Inr objs)
         else Inr objs)"

text \<open>
  The exceptions the \<^verbatim>\<open>validate()\<close> calls of one load raise, in the order of the calls.
\<close>

fun raised :: "('o \<Rightarrow> bool) \<Rightarrow> ('o \<Rightarrow> InvalidExecutionElement option) \<Rightarrow> 'o pydata list
    \<Rightarrow> InvalidExecutionElement list" where
  "raised is_element validate [] = []"
| "raised is_element validate (Obj obj # rest) =
     (if is_element obj then
        (case validate obj of
           None \<Rightarrow> raised is_element validate rest
         | Some e \<Rightarrow> e # raised is_element validate rest)
      else raised is_element validate rest)"
| "raised is_element validate (other # rest) = raised is_element validate rest"

text \<open>
  A small instance for concrete runs: objects are known by a label, all of them are
  execution elements, and two of them are invalid under the same element name.
\<close>

definition example_is_element :: "string \<Rightarrow> bool" where
  "example_is_element obj = True"

definition example_validate :: "string \<Rightarrow> InvalidExecutionElement option" where
  "example_validate obj =
     (if obj = ''first'' then Some (InvalidExecutionElement ''hello'' (PList [PStr ''no app'']))
      else if obj = ''second'' then Some (InvalidExecutionElement ''hello'' (PList [PStr ''no action'']))
      else if obj = ''third'' then Some (InvalidExecutionElement ''bye'' (PList [PStr ''no device'']))
      else None)"

section \<open>ArgumentSchema: dumping and loading an Argument\<close>














section \<open>Declared fields: defaults and allowed values\<close>

text \<open>
  A field declaration of a schema with the keyword arguments the file passes:
  \<^verbatim>\<open>required\<close>, \<^verbatim>\<open>default\<close>, \<^verbatim>\<open>missing\<close> and the \<^verbatim>\<open>OneOf\<close> validator.
\<close>

record field_decl =
  f_name :: string
  f_required :: bool
  f_default :: "pyval option"
  f_missing :: "pyval option"
  f_validates :: "pyval list option"

text \<open>
  Modelled from the spec: \<^verbatim>\<open>valid_operators\<close>, imported from
  \<^verbatim>\<open>walkoff/executiondb/conditionalexpression.py\<close>, outside this file. The spec gives
  the allowed set as and, or, xor.
\<close>

definition valid_operators :: "pyval list" where
  "valid_operators = [PStr ''and'', PStr ''or'', PStr ''xor'']"


text \<open>
  \<^verbatim>\<open>
  class ConditionalExpressionSchema(ExecutionElementBaseSchema):
      conditions = fields.Nested(ConditionSchema, many=True)
      child_expressions = fields.Nested('self', many=True)
      operator = field_for(ConditionalExpression, 'operator', default='and',
                           validates=OneOf(*valid_operators), missing='and')
      is_negated = field_for(ConditionalExpression, 'is_negated', default=False)
  \<close>
  The nested fields are left out of the table, as above.
\<close>

definition ConditionalExpressionSchema_fields :: "field_decl list" where
  "ConditionalExpressionSchema_fields =
     [\<lparr>f_name = ''operator'', f_required = False, f_default = Some (PStr ''and''),
        f_missing = Some (PStr ''and''), f_validates = Some valid_operators\<rparr>,
      \<lparr>f_name = ''is_negated'', f_required = False, f_default = Some (PBool False),
        f_missing = None, f_validates = None\<rparr>]"

text \<open>
  Modelled from the spec: the Field Coercion Layer (4.1), which the schema library and
  the entity classes implement outside this file. Where the spec speaks of one declared
  default, the file passes two keywords and the layer reads them apart: \<^verbatim>\<open>missing=\<close> is
  the value a load takes for a field that is absent from the inbound document,
  \<^verbatim>\<open>default=\<close> the value a dump takes for an attribute that is absent from the object
  (lines 144-145 pass both, line 159 passes \<^verbatim>\<open>default=\<close> alone). An absent field without
  \<^verbatim>\<open>missing=\<close> is an error when it is required and is left out otherwise. A field with
  an allowed set fails, with an error under the field's name that carries the allowed
  set, when its value is not a member.
\<close>

datatype decoded = Decoded pyval | Absent | Invalid pyval

definition load_field :: "field_decl \<Rightarrow> pydict \<Rightarrow> decoded" where
  "load_field f doc =
     (case map_of doc (f_name f) of
        None \<Rightarrow>
          (case f_missing f of
             Some d \<Rightarrow> Decoded d
           | None \<Rightarrow>
               if f_required f then Invalid (PList [PStr ''Missing data for required field.''])
               else Absent)
      | Some v \<Rightarrow>
          (case f_validates f of
             None \<Rightarrow> Decoded v
           | Some allowed \<Rightarrow>
               if py_in v allowed then Decoded v
               else Invalid (PList [PStr ''Not a valid choice.'', PList allowed])))"

text \<open>The decoded fields and the error map of one level of a document.\<close>

fun load_fields :: "field_decl list \<Rightarrow> pydict \<Rightarrow> pydict \<times> pydict" where
  "load_fields [] doc = ([], [])"
| "load_fields (f # fs) doc =
     (case load_field f doc of
        Decoded v \<Rightarrow> ((f_name f, v) # fst (load_fields fs doc), snd (load_fields fs doc))
      | Absent \<Rightarrow> load_fields fs doc
      | Invalid e \<Rightarrow> (fst (load_fields fs doc), (f_name f, e) # snd (load_fields fs doc)))"

text \<open>
  Modelled from the spec: the Recursive Loader (4.4, steps 1, 4 and 6) on one level. An
  instance is the dictionary of its attributes: the instance found in the store, or an
  empty one; the decoded keys are assigned onto it; the level succeeds only without
  errors.
\<close>

definition load_instance :: "field_decl list \<Rightarrow> pydict option \<Rightarrow> pydict \<Rightarrow> pydict + pydict" where
  "load_instance fs existing doc =
     (if snd (load_fields fs doc) = []
      then Inr (dict_update (case existing of None \<Rightarrow> [] | Some inst \<Rightarrow> inst)
                  (fst (load_fields fs doc)))
      else Inl (snd (load_fields fs doc)))"



section \<open>Meta options: excluded fields\<close>

text \<open>
  The tuples of field names in the \<^verbatim>\<open>Meta\<close> classes of the schemas, under the attribute
  name the file gives them:
  \<^verbatim>\<open>
  class ConditionalExpressionSchema(ExecutionElementBaseSchema):
      class Meta:
          model = ConditionalExpression
          excludes = ('parent',)

  class WorkflowSchema(ExecutionElementBaseSchema):
      class Meta:
          model = Workflow
          exclude = ('playbook',)
  \<close>
\<close>

type_synonym meta_options = "(string \<times> string list) list"

definition ConditionalExpressionSchema_Meta :: meta_options where
  "ConditionalExpressionSchema_Meta = [(''excludes'', [''parent''])]"

definition WorkflowSchema_Meta :: meta_options where
  "WorkflowSchema_Meta = [(''exclude'', [''playbook''])]"

text \<open>
  The schema library reads the fields to leave out from the option \<^verbatim>\<open>exclude\<close>, the
  spelling of WorkflowSchema; an attribute of another name is not an option.
\<close>

definition excluded :: "meta_options \<Rightarrow> string list" where
  "excluded m = (case map_of m ''exclude'' of None \<Rightarrow> [] | Some fs \<Rightarrow> fs)"

text \<open>
  Modelled from the spec: the attributes of the two entities (3), among them the
  back-references \<^verbatim>\<open>parent\<close> and \<^verbatim>\<open>playbook\<close> to the owning element.
\<close>

definition ConditionalExpression_attributes :: "string list" where
  "ConditionalExpression_attributes =
     [''operator'', ''is_negated'', ''conditions'', ''child_expressions'', ''parent'']"

definition Workflow_attributes :: "string list" where
  "Workflow_attributes = [''name'', ''actions'', ''branches'', ''playbook'']"

definition serialized_fields :: "string list \<Rightarrow> meta_options \<Rightarrow> string list" where
  "serialized_fields attributes m = filter (\<lambda>a. a \<notin> set (excluded m)) attributes"

section \<open>The registry and dump\_element\<close>

datatype schema =
    PlaybookSchema | WorkflowSchema | ActionSchema | BranchSchema | ConditionalExpressionSchema
  | ConditionSchema | TransformSchema | PositionSchema | ArgumentSchema

text \<open>
  \<^verbatim>\<open>
  _schema_lookup = {
      Playbook: PlaybookSchema,
      Workflow: WorkflowSchema,
      Action: ActionSchema,
      Branch: BranchSchema,
      ConditionalExpression: ConditionalExpressionSchema,
      Condition: ConditionSchema,
      Transform: TransformSchema,
      Position: PositionSchema,
      Argument: ArgumentSchema}
  \<close>
\<close>

definition schema_lookup :: "(py_class \<times> schema) list" where
  "schema_lookup =
     [(Playbook, PlaybookSchema), (Workflow, WorkflowSchema), (Action, ActionSchema),
      (Branch, BranchSchema), (ConditionalExpression, ConditionalExpressionSchema),
      (Condition, ConditionSchema), (Transform, TransformSchema), (Position, PositionSchema),
      (Argument, ArgumentSchema)]"

text \<open>
  \<^verbatim>\<open>
  def dump_element(element):
      return _schema_lookup[element.__class__]().dump(element).data
  \<close>
  The parameters are \<open>class_of\<close>, the class of an object (\<^verbatim>\<open>element.__class__\<close>), and
  \<open>schema_dump\<close>, the document a schema dumps for an object. A key that is not in the
  dictionary raises \<^verbatim>\<open>KeyError\<close>, which the function does not catch.
\<close>

definition dump_element ::
  "('o \<Rightarrow> py_class) \<Rightarrow> (schema \<Rightarrow> 'o \<Rightarrow> pydict) \<Rightarrow> 'o \<Rightarrow> py_exception + pydict" where
  "dump_element class_of schema_dump element =
     (case map_of schema_lookup (class_of element) of
        None \<Rightarrow> Inl (KeyError (class_of element))
      | Some s \<Rightarrow> Inr (schema_dump s element))"

text \<open>Objects for concrete runs: an object is its class and its attributes.\<close>

definition example_class_of :: "py_class \<times> pydict \<Rightarrow> py_class" where
  "example_class_of obj = fst obj"

definition example_schema_dump :: "schema \<Rightarrow> py_class \<times> pydict \<Rightarrow> pydict" where
  "example_schema_dump s obj = do_post_dump (snd obj)"

section \<open>Properties\<close>

subsection \<open>Equality with the skip values\<close>

lemma py_eq_None_left: "py_eq PNone v \<longleftrightarrow> v = PNone"
  by (cases v) simp_all

lemma py_eq_empty_list_left: "py_eq (PList []) v \<longleftrightarrow> v = PList []"
proof (cases v)
  case (PList xs)
  then show ?thesis by (cases xs) simp_all
qed simp_all

lemma py_eq_empty_dict_left: "py_eq (PDict []) v \<longleftrightarrow> v = PDict []"
  by (cases v) auto

lemma py_eq_list_single: "py_eq_list [PDict []] ys \<longleftrightarrow> ys = [PDict []]"
proof (cases ys)
  case (Cons y zs)
  then show ?thesis by (cases zs) (simp_all add: py_eq_empty_dict_left)
qed simp

lemma py_eq_single_empty_dict_left: "py_eq (PList [PDict []]) v \<longleftrightarrow> v = PList [PDict []]"
  by (cases v) (simp_all add: py_eq_list_single)

lemma py_in_skipvalues:
  "py_in v skipvalues \<longleftrightarrow> v = PNone \<or> v = PList [] \<or> v = PList [PDict []]"
  by (simp add: skipvalues_def py_eq_None_left py_eq_empty_list_left py_eq_single_empty_dict_left)

subsection \<open>The value-or-reference rule of ArgumentSchema\<close>

text \<open>
  Claim C1. With \<open>has_value\<close> the presence of the key \<^verbatim>\<open>value\<close> and \<open>has_reference\<close> the
  presence of the key \<^verbatim>\<open>reference\<close> with a truthy value: when both hold or neither
  does, the validator adds to the load exactly one error, under the field \<^verbatim>\<open>value\<close>,
  with the message "Arguments must have either a value or a reference."; when exactly
  one holds, the validator passes and adds no error.
\<close>

theorem validate_argument_value_xor_reference:
  "argument_schema_errors doc =
     (if (map_of doc ''value'' \<noteq> None) = (\<exists>r. map_of doc ''reference'' = Some r \<and> py_bool r)
      then [(''value'', PList [PStr ''Arguments must have either a value or a reference.''])]
      else [])
   \<and> (validate_argument doc = Inr () \<longleftrightarrow>
        (map_of doc ''value'' \<noteq> None) \<noteq> (\<exists>r. map_of doc ''reference'' = Some r \<and> py_bool r))"
  by (auto simp: argument_schema_errors_def validate_argument_def store_error_def Let_def
      split: option.splits)

theorem validate_argument_value_xor_reference_witness:
  "argument_schema_errors [(''name'', PStr ''a''), (''value'', PInt 0), (''reference'', PStr ''r'')]
     = [(''value'', PList [PStr ''Arguments must have either a value or a reference.''])]
   \<and> argument_schema_errors [(''name'', PStr ''a'')]
     = [(''value'', PList [PStr ''Arguments must have either a value or a reference.''])]
   \<and> validate_argument [(''name'', PStr ''a''), (''value'', PInt 0), (''reference'', PStr [])]
     = Inr ()"
  using validate_argument_value_xor_reference
          [of "[(''name'', PStr ''a''), (''value'', PInt 0), (''reference'', PStr ''r'')]"]
        validate_argument_value_xor_reference [of "[(''name'', PStr ''a'')]"]
        validate_argument_value_xor_reference
          [of "[(''name'', PStr ''a''), (''value'', PInt 0), (''reference'', PStr [])]"]
  by simp

subsection \<open>What a dump strips\<close>

text \<open>
  Claim C4. The dumped document omits exactly the fields whose serialized value is
  \<^verbatim>\<open>None\<close>, an empty list, or a list holding exactly one empty dictionary: a field is in
  the dumped document if and only if it is in the serialized one and its value is none
  of the three. In particular a field whose value is 0, \<^verbatim>\<open>False\<close>, the empty string or
  an empty dictionary is kept.
\<close>

theorem do_post_dump_omits_exactly_skip_values:
  "((k, v) \<in> set (do_post_dump doc) \<longleftrightarrow>
      (k, v) \<in> set doc \<and> v \<noteq> PNone \<and> v \<noteq> PList [] \<and> v \<noteq> PList [PDict []])
   \<and> do_post_dump [(k, PInt 0)] = [(k, PInt 0)]
   \<and> do_post_dump [(k, PBool False)] = [(k, PBool False)]
   \<and> do_post_dump [(k, PStr [])] = [(k, PStr [])]
   \<and> do_post_dump [(k, PDict [])] = [(k, PDict [])]"
  by (auto simp: do_post_dump_def remove_skip_values_def py_in_skipvalues)

theorem do_post_dump_omits_exactly_skip_values_witness:
  "do_post_dump
     [(''name'', PStr ''a''), (''trigger'', PNone), (''arguments'', PList []),
      (''position'', PList [PDict []]), (''x'', PInt 0), (''flag'', PBool False),
      (''label'', PStr []), (''value'', PDict [])]
   = [(''name'', PStr ''a''), (''x'', PInt 0), (''flag'', PBool False), (''label'', PStr []),
      (''value'', PDict [])]
   \<and> (''trigger'', PNone) \<notin> set (do_post_dump [(''name'', PStr ''a''), (''trigger'', PNone)])"
  using do_post_dump_omits_exactly_skip_values
          [of "''trigger''" PNone "[(''name'', PStr ''a''), (''trigger'', PNone)]"]
  by (simp add: do_post_dump_def remove_skip_values_def skipvalues_def)

text \<open>
  Claim C10, as stated, fails: an empty dictionary is not one of the skip values, so a
  field whose value is \<^verbatim>\<open>{}\<close> (the raw \<^verbatim>\<open>value\<close> of an Argument, say) stays in the
  dumped document.
\<close>

theorem do_post_dump_keeps_empty_dict:
  "do_post_dump [(''name'', PStr ''a''), (''value'', PDict [])]
     = [(''name'', PStr ''a''), (''value'', PDict [])]"
  by (simp add: do_post_dump_def remove_skip_values_def skipvalues_def)

text \<open>
  Claim C10, amended. No field of a dumped document has the value \<^verbatim>\<open>None\<close>, an empty
  list, or a list holding exactly one empty dictionary.
\<close>

theorem do_post_dump_has_no_skip_value:
  "(k, v) \<in> set (do_post_dump doc) \<Longrightarrow> v \<noteq> PNone \<and> v \<noteq> PList [] \<and> v \<noteq> PList [PDict []]"
  by (auto simp: do_post_dump_def remove_skip_values_def py_in_skipvalues)

theorem do_post_dump_has_no_skip_value_witness:
  "(''x'', PInt 1) \<in> set (do_post_dump [(''x'', PInt 1), (''y'', PNone)])
   \<and> PInt 1 \<noteq> PNone \<and> PInt 1 \<noteq> PList [] \<and> PInt 1 \<noteq> PList [PDict []]"
proof -
  have h: "(''x'', PInt 1) \<in> set (do_post_dump [(''x'', PInt 1), (''y'', PNone)])"
    by (simp add: do_post_dump_def remove_skip_values_def skipvalues_def)
  show ?thesis using h do_post_dump_has_no_skip_value [OF h] by simp
qed

subsection \<open>The load of an execution element schema\<close>


lemma validate_objs_empty:
  "validate_objs is_element validate xs errs = [] \<longleftrightarrow>
     errs = [] \<and> raised is_element validate xs = []"
proof (induction is_element validate xs errs rule: validate_objs.induct)
  case (2 is_element validate obj rest errs)
  then show ?case
    by (cases errs) (auto split: option.splits)
qed simp_all


lemma map_of_dict_update: "map_of (dict_update d e) = map_of d ++ map_of (rev e)"
  unfolding dict_update_def
proof (induction e arbitrary: d)
  case (Cons kv e)
  show ?case
    by (cases kv) (simp add: Cons update_conv' fun_eq_iff map_add_def split: option.splits)
qed simp

lemma dict_update_Nil_eq_Nil: "dict_update d e = [] \<longleftrightarrow> d = [] \<and> e = []"
  unfolding dict_update_def
proof (induction e arbitrary: d)
  case (Cons kv e)
  show ?case by (cases kv; cases d) (auto simp: Cons)
qed simp


lemma map_of_rev_distinct:
  "distinct (map fst kvs) \<Longrightarrow> map_of (rev kvs) = map_of kvs"
  by (simp add: map_of_inject_set distinct_map)


text \<open>
  Claim C2, as stated, fails: the load never replaces its data by \<^verbatim>\<open>None\<close>. When the
  \<^verbatim>\<open>validate()\<close> of the constructed object raises, the result holds the object together
  with a non-empty error map.
\<close>

theorem load_keeps_object_with_errors:
  "load example_is_element example_validate (Returns (Obj ''first'') [])
     = Inr (UnmarshalResult (Obj ''first'') (PDict [(''hello'', PList [PStr ''no app''])]))"
  by (simp add: load_def Let_def py_update_def dict_update_def example_is_element_def
      example_validate_def)

text \<open>
  Claim C2, amended. The load returns a pair and raises nothing. Its data is what the
  inherited load returned, or the empty dictionary when \<^verbatim>\<open>InvalidExecutionElement\<close>
  escaped from it; it is never emptied afterwards. Its error map is empty exactly when
  the inherited load reported no error and no \<^verbatim>\<open>validate()\<close> of a returned execution
  element raised (after an escaped exception: exactly when that exception's errors are
  empty).
\<close>

theorem load_result_shape:
  "\<exists>r. load is_element validate super = Inr r
     \<and> result_data r = (case super of Returns d errs \<Rightarrow> d | Raises e \<Rightarrow> Raw (PDict []))
     \<and> (\<not> py_bool (result_errors r) \<longleftrightarrow>
          (case super of
             Returns d errs \<Rightarrow> errs = [] \<and> raised is_element validate (all_objs d) = []
           | Raises e \<Rightarrow> \<not> py_bool (errors e)))"
proof (cases super)
  case (Returns d errs)
  then show ?thesis
    by (auto simp: load_def Let_def py_update_def validate_objs_empty dict_update_Nil_eq_Nil)
next
  case (Raises e)
  then show ?thesis
    by (auto simp: load_def Let_def py_update_def)
qed

theorem load_result_shape_witness:
  "\<exists>r. load example_is_element example_validate (Returns (Obj ''fine'') []) = Inr r
     \<and> result_data r = Obj ''fine'' \<and> \<not> py_bool (result_errors r)"
  using load_result_shape [of example_is_element example_validate "Returns (Obj ''fine'') []"]
  by (simp add: example_is_element_def example_validate_def)




subsection \<open>Dumping and loading an Argument\<close>




subsection \<open>Declared defaults and allowed values\<close>

lemma py_in_valid_operators:
  "py_in v valid_operators \<longleftrightarrow> v = PStr ''and'' \<or> v = PStr ''or'' \<or> v = PStr ''xor''"
  by (cases v) (auto simp: valid_operators_def)

lemma fst_load_fields_names:
  "map fst (fst (load_fields fs doc)) = map f_name (filter (\<lambda>f. \<exists>v. load_field f doc = Decoded v) fs)"
  by (induction fs) (auto split: decoded.splits)

lemma distinct_load_fields:
  "distinct (map f_name fs) \<Longrightarrow> distinct (map fst (fst (load_fields fs doc)))"
  by (simp add: fst_load_fields_names distinct_map_filter)

lemma map_of_load_fields:
  "distinct (map f_name fs) \<Longrightarrow> f \<in> set fs
     \<Longrightarrow> map_of (fst (load_fields fs doc)) (f_name f)
           = (case load_field f doc of Decoded v \<Rightarrow> Some v | Absent \<Rightarrow> None | Invalid e \<Rightarrow> None)"
proof (induction fs)
  case (Cons g fs)
  show ?case
  proof (cases "f = g")
    case True
    have "f_name g \<notin> fst ` set (fst (load_fields fs doc))"
      using Cons.prems(1) fst_load_fields_names [of fs doc]
      by (metis (no_types, lifting) distinct.simps(2) filter_is_subset image_mono list.map(2) list.set_map subsetD)
    then have "map_of (fst (load_fields fs doc)) (f_name g) = None"
      by (simp add: map_of_eq_None_iff)
    then show ?thesis using True by (simp split: decoded.splits)
  next
    case False
    then have "f \<in> set fs" "f_name g \<noteq> f_name f" using Cons.prems by auto
    then show ?thesis using Cons by (auto split: decoded.splits)
  qed
qed simp

lemma load_instance_attr:
  assumes "distinct (map f_name fs)" "f \<in> set fs"
    and "load_instance fs existing doc = Inr inst"
  shows "map_of inst (f_name f)
           = (case load_field f doc of
                Decoded v \<Rightarrow> Some v
              | Absent \<Rightarrow> (case existing of None \<Rightarrow> None | Some stored \<Rightarrow> map_of stored (f_name f))
              | Invalid e \<Rightarrow> (case existing of None \<Rightarrow> None | Some stored \<Rightarrow> map_of stored (f_name f)))"
proof -
  have "inst = dict_update (case existing of None \<Rightarrow> [] | Some i \<Rightarrow> i) (fst (load_fields fs doc))"
    using assms(3) by (auto simp: load_instance_def split: if_splits)
  then show ?thesis
    using map_of_load_fields [OF assms(1,2), of doc]
      map_of_rev_distinct [OF distinct_load_fields [OF assms(1)], of doc]
    by (auto simp: map_of_dict_update map_add_def split: decoded.splits option.splits)
qed










lemma py_in_set_valid_operators: "py_in v valid_operators \<longleftrightarrow> v \<in> set valid_operators"
  by (auto simp: py_in_valid_operators) (simp_all add: valid_operators_def)

text \<open>
  Claim C7. A ConditionalExpression document whose \<^verbatim>\<open>operator\<close> is outside the allowed
  set (\<^verbatim>\<open>nand\<close>, say) fails to load, with an error under the field \<^verbatim>\<open>operator\<close>; an
  operator of the set is accepted and becomes the operator of the instance.
\<close>

theorem operator_outside_allowed_set_rejected:
  "(map_of doc ''operator'' = Some v \<and> v \<notin> set valid_operators \<longrightarrow>
      (\<exists>errs. load_instance ConditionalExpressionSchema_fields existing doc = Inl errs
         \<and> map_of errs ''operator''
             = Some (PList [PStr ''Not a valid choice.'', PList valid_operators])))
   \<and> (map_of doc ''operator'' = Some v \<and> v \<in> set valid_operators \<longrightarrow>
        (\<exists>inst. load_instance ConditionalExpressionSchema_fields existing doc = Inr inst
           \<and> map_of inst ''operator'' = Some v))"
proof (intro conjI impI)
  assume a: "map_of doc ''operator'' = Some v \<and> v \<notin> set valid_operators"
  then show "\<exists>errs. load_instance ConditionalExpressionSchema_fields existing doc = Inl errs
         \<and> map_of errs ''operator''
             = Some (PList [PStr ''Not a valid choice.'', PList valid_operators])"
    by (auto simp: load_instance_def ConditionalExpressionSchema_fields_def load_field_def
        py_in_set_valid_operators split: option.splits)
next
  assume a: "map_of doc ''operator'' = Some v \<and> v \<in> set valid_operators"
  let ?f = "\<lparr>f_name = ''operator'', f_required = False, f_default = Some (PStr ''and''),
        f_missing = Some (PStr ''and''), f_validates = Some valid_operators\<rparr>"
  have ok: "snd (load_fields ConditionalExpressionSchema_fields doc) = []"
    using a by (auto simp: ConditionalExpressionSchema_fields_def load_field_def
        py_in_set_valid_operators split: option.splits)
  then obtain inst where run: "load_instance ConditionalExpressionSchema_fields existing doc = Inr inst"
    by (simp add: load_instance_def)
  have d: "distinct (map f_name ConditionalExpressionSchema_fields)"
    and m: "?f \<in> set ConditionalExpressionSchema_fields"
    by (simp_all add: ConditionalExpressionSchema_fields_def)
  have "load_field ?f doc = Decoded v"
    using a by (simp add: load_field_def py_in_set_valid_operators)
  with load_instance_attr [OF d m run] run
  show "\<exists>inst. load_instance ConditionalExpressionSchema_fields existing doc = Inr inst
           \<and> map_of inst ''operator'' = Some v"
    by simp
qed

theorem operator_outside_allowed_set_rejected_witness:
  "(\<exists>errs. load_instance ConditionalExpressionSchema_fields None [(''operator'', PStr ''nand'')]
             = Inl errs
      \<and> map_of errs ''operator''
          = Some (PList [PStr ''Not a valid choice.'', PList valid_operators]))
   \<and> (\<exists>inst. load_instance ConditionalExpressionSchema_fields None [(''operator'', PStr ''xor'')]
             = Inr inst
      \<and> map_of inst ''operator'' = Some (PStr ''xor''))"
proof (intro conjI)
  show "\<exists>errs. load_instance ConditionalExpressionSchema_fields None [(''operator'', PStr ''nand'')]
             = Inl errs
      \<and> map_of errs ''operator''
          = Some (PList [PStr ''Not a valid choice.'', PList valid_operators])"
    using operator_outside_allowed_set_rejected
          [where doc = "[(''operator'', PStr ''nand'')]" and v = "PStr ''nand''"
             and existing = None, THEN conjunct1]
    by (simp add: valid_operators_def)
  show "\<exists>inst. load_instance ConditionalExpressionSchema_fields None [(''operator'', PStr ''xor'')]
             = Inr inst
      \<and> map_of inst ''operator'' = Some (PStr ''xor'')"
    using operator_outside_allowed_set_rejected
          [where doc = "[(''operator'', PStr ''xor'')]" and v = "PStr ''xor''"
             and existing = None, THEN conjunct2]
    by (simp add: valid_operators_def)
qed

subsection \<open>The excluded back-references\<close>

text \<open>
  Claim C8 against the code: the \<^verbatim>\<open>Meta\<close> class of ConditionalExpressionSchema names
  its tuple \<^verbatim>\<open>excludes\<close>, which is not the option \<^verbatim>\<open>exclude\<close> that WorkflowSchema
  uses, so nothing is excluded and \<^verbatim>\<open>parent\<close> is among the serialized fields, while
  \<^verbatim>\<open>playbook\<close> is left out of a dumped Workflow.
\<close>

theorem parent_not_excluded:
  "excluded ConditionalExpressionSchema_Meta = []
   \<and> ''parent'' \<in> set (serialized_fields ConditionalExpression_attributes ConditionalExpressionSchema_Meta)
   \<and> excluded WorkflowSchema_Meta = [''playbook'']
   \<and> ''playbook'' \<notin> set (serialized_fields Workflow_attributes WorkflowSchema_Meta)"
  by (simp add: excluded_def serialized_fields_def ConditionalExpressionSchema_Meta_def
      WorkflowSchema_Meta_def ConditionalExpression_attributes_def Workflow_attributes_def)

subsection \<open>Dispatch by class\<close>

text \<open>
  Claim C9. \<open>dump_element\<close> looks the schema up under the class of its argument
  itself: the lookup succeeds exactly for the nine registered classes, and then the
  result is the dump of the registered schema; for every other class, a subclass of a
  registered class included, the call raises \<^verbatim>\<open>KeyError\<close>, which is not caught.
\<close>

theorem dump_element_dispatch:
  "(class_of element \<in> fst ` set schema_lookup \<longleftrightarrow>
      class_of element \<in> {Playbook, Workflow, Action, Branch, ConditionalExpression, Condition,
                          Transform, Position, Argument})
   \<and> (class_of element \<in> fst ` set schema_lookup \<longrightarrow>
        (\<exists>s. (class_of element, s) \<in> set schema_lookup
           \<and> dump_element class_of schema_dump element = Inr (schema_dump s element)))
   \<and> (class_of element \<notin> fst ` set schema_lookup \<longrightarrow>
        dump_element class_of schema_dump element = Inl (KeyError (class_of element)))
   \<and> (class_of element = OtherClass n bases \<longrightarrow>
        dump_element class_of schema_dump element = Inl (KeyError (OtherClass n bases)))"
  by (cases "class_of element") (auto simp: dump_element_def schema_lookup_def)

theorem dump_element_dispatch_witness:
  "dump_element example_class_of example_schema_dump (Action, [(''name'', PStr ''a''), (''trigger'', PNone)])
     = Inr [(''name'', PStr ''a'')]
   \<and> dump_element example_class_of example_schema_dump
       (OtherClass ''SubAction'' [Action], [(''name'', PStr ''a'')])
     = Inl (KeyError (OtherClass ''SubAction'' [Action]))"
proof (intro conjI)
  have "example_class_of (Action, [(''name'', PStr ''a''), (''trigger'', PNone)])
          \<in> fst ` set schema_lookup"
    by (simp add: example_class_of_def schema_lookup_def)
  with dump_element_dispatch
          [where class_of = example_class_of and schema_dump = example_schema_dump
             and element = "(Action, [(''name'', PStr ''a''), (''trigger'', PNone)])"]
  show "dump_element example_class_of example_schema_dump
          (Action, [(''name'', PStr ''a''), (''trigger'', PNone)]) = Inr [(''name'', PStr ''a'')]"
    by (auto simp: example_schema_dump_def do_post_dump_def remove_skip_values_def skipvalues_def)
  have "example_class_of (OtherClass ''SubAction'' [Action], [(''name'', PStr ''a'')])
          = OtherClass ''SubAction'' [Action]"
    by (simp add: example_class_of_def)
  with dump_element_dispatch
          [where class_of = example_class_of and schema_dump = example_schema_dump
             and element = "(OtherClass ''SubAction'' [Action], [(''name'', PStr ''a'')])"
             and n = "''SubAction''" and bases = "[Action]"]
  show "dump_element example_class_of example_schema_dump
       (OtherClass ''SubAction'' [Action], [(''name'', PStr ''a'')])
     = Inl (KeyError (OtherClass ''SubAction'' [Action]))"
    by simp
qed

end
